theory Spec2Isabelle
  imports Main
begin

section \<open>Data model\<close>

text \<open>
  A reflected table as \<open>app.py\<close> uses it: its name, the keys of \<open>tbl.c\<close> (the column
  names, in order) and the names of \<open>tbl.primary_key.columns\<close>.
\<close>

record table =
  tbl_name :: string
  tbl_c :: "string list"
  tbl_pk :: "string list"

text \<open>
  \<open>pk_columns(tbl)\<close> lists the primary-key columns; every use in \<open>app.py\<close> reads
  only \<open>c.name\<close>, so the model lists the names.
\<close>

definition pk_columns :: "table \<Rightarrow> string list" where
  "pk_columns tbl = tbl_pk tbl"

text \<open>
  The query parameters (\<open>request.args\<close>) are the pairs of the query string in
  order. \<open>args.get(k)\<close> is the first value given for \<open>k\<close>, \<open>k in args\<close> holds when
  some pair has the key, and \<open>args.items()\<close> yields every key once, with its first value.
\<close>

type_synonym params = "(string \<times> string) list"

definition args_get :: "params \<Rightarrow> string \<Rightarrow> string option" where
  "args_get args k = map_of args k"

definition args_has :: "params \<Rightarrow> string \<Rightarrow> bool" where
  "args_has args k = (map_of args k \<noteq> None)"

fun items :: "params \<Rightarrow> params" where
  "items [] = []"
| "items (kv # kvs) = kv # items (filter (\<lambda>p. fst p \<noteq> fst kv) kvs)"

text \<open>
  The comparisons \<open>build_filters\<close> builds on a column, with the bound value as the
  string the request gave; \<open>and_(*conds)\<close> is the conjunction of a list of them.
  Comparing a column with Python's \<open>None\<close> is the test \<open>IS NULL\<close>. No clause stands
  for \<open>ILIKE\<close>: the expression that would build it raises, see \<open>key_conds\<close>.
\<close>

datatype clause =
    Eq string string
  | IsNull string
  | Gte string string
  | Lte string string

text \<open>The exceptions that reach \<open>handle_any_error\<close>.\<close>

datatype exn =
    ValueError string
  | AttributeError
  | TypeError
  | ResourceClosedError
  | DBError string

datatype pred = And "clause list"

datatype order = Asc string | Desc string

fun col_eq :: "string \<Rightarrow> string option \<Rightarrow> clause" where
  "col_eq col None = IsNull col"
| "col_eq col (Some v) = Eq col v"

section \<open>Python's built-ins\<close>

text \<open>
  \<open>int(s)\<close> on a string, base ten: surrounding whitespace (tab, line feed, vertical
  tab, form feed, carriage return and space, and no other ASCII byte) is dropped, one
  sign is allowed, and the rest is a non-empty run of digits in which single underscores
  may stand between two digits. Anything else raises \<open>ValueError\<close>, here \<open>None\<close>.
  The bytes 9 to 13 and the byte 32 are that whitespace.
  Strings are byte strings here, so the model covers ASCII input; the interpreter's
  limit on the number of digits is not modelled.
\<close>

definition is_space :: "char \<Rightarrow> bool" where
  "is_space ch = (let n = (of_char ch :: nat) in (9 \<le> n \<and> n \<le> 13) \<or> (32 \<le> n \<and> n \<le> 32))"

definition is_digit :: "char \<Rightarrow> bool" where
  "is_digit ch = (let n = (of_char ch :: nat) in 48 \<le> n \<and> n \<le> 57)"

definition digit_val :: "char \<Rightarrow> int" where
  "digit_val ch = int (of_char ch) - 48"

definition strip :: "string \<Rightarrow> string" where
  "strip s = rev (dropWhile is_space (rev (dropWhile is_space s)))"

fun digits :: "int \<Rightarrow> bool \<Rightarrow> string \<Rightarrow> int option" where
  "digits acc prev [] = (if prev then Some acc else None)"
| "digits acc prev (ch # cs) =
     (if is_digit ch then digits (10 * acc + digit_val ch) True cs
      else if ch = CHR ''_'' \<and> prev then digits acc False cs
      else None)"

definition py_int :: "string \<Rightarrow> int option" where
  "py_int s =
     (case strip s of
        [] \<Rightarrow> None
      | ch # cs \<Rightarrow>
          if ch = CHR ''-'' then map_option uminus (digits 0 False cs)
          else if ch = CHR ''+'' then digits 0 False cs
          else digits 0 False (ch # cs))"

text \<open>\<open>str.lower()\<close>, on ASCII letters; other bytes are kept.\<close>

definition lower_char :: "char \<Rightarrow> char" where
  "lower_char ch =
     (let n = (of_char ch :: nat) in if 65 \<le> n \<and> n \<le> 90 then char_of (n + 32) else ch)"

definition lower :: "string \<Rightarrow> string" where
  "lower s = map lower_char s"

text \<open>\<open>s.endswith(suf)\<close>, and \<open>s[:-n]\<close> for a string of at least \<open>n\<close> characters.\<close>

definition endswith :: "string \<Rightarrow> string \<Rightarrow> bool" where
  "endswith s suf = (length suf \<le> length s \<and> drop (length s - length suf) s = suf)"

definition chop :: "nat \<Rightarrow> string \<Rightarrow> string" where
  "chop n s = take (length s - n) s"

section \<open>Helpers of \<open>app.py\<close>\<close>

text \<open>
  \<open>cast_limit\<close>: the whole body stands in a \<open>try\<close>; only \<open>int(limit)\<close> can raise,
  and the handler of the exception returns the default as it is (\<open>dflt\<close> is the
  parameter \<open>default\<close>).
\<close>

definition cast_limit :: "string option \<Rightarrow> int \<Rightarrow> int \<Rightarrow> int" where
  "cast_limit limit dflt max_limit =
     (case limit of
        None \<Rightarrow> max 1 (min dflt max_limit)
      | Some s \<Rightarrow>
          (case py_int s of
             None \<Rightarrow> dflt
           | Some v \<Rightarrow> max 1 (min v max_limit)))"

definition skip :: "string list" where
  "skip = [''limit'', ''offset'', ''order_by'', ''order_dir'']"

text \<open>
  One pass of the loop of \<open>build_filters\<close> over \<open>args.items()\<close>: the clauses that
  the pair \<open>(key, val)\<close> appends to \<open>conds\<close>, or the exception it raises. For a key
  \<open>col_like\<close> on a real column the source evaluates \<open>tbl.c[col].cast(str).ilike(val)\<close>;
  \<open>str\<close> is no SQL type, and \<open>ilike\<close> on that cast raises \<open>TypeError\<close>.
\<close>

definition key_conds :: "table \<Rightarrow> string \<times> string \<Rightarrow> exn + clause list" where
  "key_conds tbl kv =
     (let key = fst kv; val = snd kv in
      if key \<in> set skip \<or> key \<in> set (pk_columns tbl) then Inr []
      else if endswith key ''_gte'' then
        (let col = chop 4 key in if col \<in> set (tbl_c tbl) then Inr [Gte col val] else Inr [])
      else if endswith key ''_lte'' then
        (let col = chop 4 key in if col \<in> set (tbl_c tbl) then Inr [Lte col val] else Inr [])
      else if endswith key ''_like'' then
        (let col = chop 5 key in if col \<in> set (tbl_c tbl) then Inl TypeError else Inr [])
      else if key \<in> set (tbl_c tbl) then Inr [Eq key val]
      else Inr [])"

text \<open>The loop itself: it stops at the first pair that raises.\<close>

fun conds_of :: "table \<Rightarrow> params \<Rightarrow> exn + clause list" where
  "conds_of tbl [] = Inr []"
| "conds_of tbl (kv # kvs) =
     (case key_conds tbl kv of
        Inl e \<Rightarrow> Inl e
      | Inr cs \<Rightarrow>
          (case conds_of tbl kvs of
             Inl e \<Rightarrow> Inl e
           | Inr rest \<Rightarrow> Inr (cs @ rest)))"

definition build_filters :: "table \<Rightarrow> params \<Rightarrow> exn + pred option" where
  "build_filters tbl args =
     (if list_all (args_has args) (pk_columns tbl)
      then Inr (Some (And (map (\<lambda>c. col_eq c (args_get args c)) (pk_columns tbl))))
      else
        (case conds_of tbl (items args) of
           Inl e \<Rightarrow> Inl e
         | Inr conds \<Rightarrow> Inr (if conds = [] then None else Some (And conds))))"

definition parse_order :: "table \<Rightarrow> params \<Rightarrow> order option" where
  "parse_order tbl args =
     (case args_get args ''order_by'' of
        None \<Rightarrow> None
      | Some ob \<Rightarrow>
          if ob = [] \<or> ob \<notin> set (tbl_c tbl) then None
          else
            (let direction =
               lower (case args_get args ''order_dir'' of None \<Rightarrow> ''desc'' | Some d \<Rightarrow> d)
             in if direction = ''desc'' then Some (Desc ob) else Some (Asc ob)))"

text \<open>
  Values of a row or of a JSON object. A row (\<open>dict(row)\<close>, a payload) lists its
  fields with their values.
\<close>

datatype val = VNull | VBool bool | VInt int | VStr string

type_synonym row = "(string \<times> val) list"

text \<open>
  What \<open>request.get_json(silent=True)\<close> returns: \<open>None\<close> when the body is missing or
  is not JSON, an object, or another JSON value, of which only the truth value matters.
\<close>

datatype json_body = NoJson | JObject row | JOther bool

text \<open>
  \<open>payload_known_columns(tbl, request.get_json(silent=True) or {})\<close>: a falsy body
  counts as the empty object; a truthy value that is no object has no \<open>items\<close>, and
  the call raises.
\<close>

definition payload_known_columns :: "table \<Rightarrow> json_body \<Rightarrow> exn + row" where
  "payload_known_columns tbl body =
     (case body of
        NoJson \<Rightarrow> Inr []
      | JObject payload \<Rightarrow> Inr (filter (\<lambda>kv. fst kv \<in> set (tbl_c tbl)) payload)
      | JOther truthy \<Rightarrow> if truthy then Inl AttributeError else Inr [])"

section \<open>Statements, responses and the request handler\<close>

text \<open>
  The statements the handler builds: \<open>select(table)\<close> with its optional \<open>where\<close>,
  \<open>order_by\<close>, its \<open>limit\<close> and optional \<open>offset\<close>; \<open>insert\<close> and \<open>update\<close>
  returning the whole row; \<open>delete\<close> returning the listed columns.
\<close>

datatype stmt =
    Select "pred option" "order option" int "int option"
  | Insert row
  | Update pred row
  | Delete pred "string list"

datatype body = JRow row | JList "row list" int int | JDeleted

text \<open>
  A response is \<open>jsonify(...)\<close> with its status, an \<open>abort(code, description)\<close>, or an
  exception that reaches \<open>handle_any_error\<close>, which answers with status 500.
\<close>

datatype response = Ok int body | Abort int string | Internal exn

fun status :: "response \<Rightarrow> int" where
  "status (Ok code _) = code"
| "status (Abort code _) = code"
| "status (Internal _) = 500"

record config =
  DEFAULT_LIMIT :: int
  MAX_LIMIT :: int
  READ_ONLY :: "string list"

record request =
  req_method :: string
  req_args :: params
  req_json :: json_body

definition quoted :: "string \<Rightarrow> string" where
  "quoted s = [CHR 0x27] @ s @ [CHR 0x27]"

fun require_pk_params :: "params \<Rightarrow> string list \<Rightarrow> response + params" where
  "require_pk_params args [] = Inr []"
| "require_pk_params args (col # cols) =
     (case args_get args col of
        None \<Rightarrow> Inl (Abort 400 (''Missing primary key parameter '' @ quoted col))
      | Some v \<Rightarrow>
          (case require_pk_params args cols of
             Inl e \<Rightarrow> Inl e
           | Inr data \<Rightarrow> Inr ((col, v) # data)))"

definition pk_where :: "params \<Rightarrow> pred" where
  "pk_where pkd = And (map (\<lambda>kv. Eq (fst kv) (snd kv)) pkd)"

text \<open>\<open>.first()\<close> of a result, and Python's \<open>not row\<close>: no row, or a row without fields.\<close>

definition first :: "row list \<Rightarrow> row option" where
  "first rs = (case rs of [] \<Rightarrow> None | r # _ \<Rightarrow> Some r)"

definition no_row :: "row option \<Rightarrow> bool" where
  "no_row r = (case r of None \<Rightarrow> True | Some rw \<Rightarrow> rw = [])"

definition read_only_msg :: "table \<Rightarrow> string" where
  "read_only_msg tbl = ''Table '' @ quoted (tbl_name tbl) @ '' is read-only''"

text \<open>
  The handler runs its statement on an executor \<open>exec\<close>, which stands for
  \<open>conn.execute\<close>: from a statement and the state of the database it gives the rows
  or the exception raised, and the state after the statement. A read leaves the state as
  it was. A write runs in \<open>engine.begin()\<close>: it commits the new state, and rolls back
  to the old one when the statement raises.

  The branches of \<open>handler\<close>, one definition each, in the order of the source.
\<close>

type_synonym 'db executor = "stmt \<Rightarrow> 'db \<Rightarrow> (exn + row list) \<times> 'db"

definition get_one :: "'db executor \<Rightarrow> table \<Rightarrow> params \<Rightarrow> 'db \<Rightarrow> response \<times> 'db" where
  "get_one exec tbl args db =
     (let wh = And (map (\<lambda>c. col_eq c (args_get args c)) (pk_columns tbl));
          st = Select (Some wh) None 1 None
      in case fst (exec st db) of
           Inl e \<Rightarrow> (Internal e, db)
         | Inr rows \<Rightarrow>
             (let r = first rows in
              if no_row r then (Abort 404 ''Not found'', db)
              else (case r of None \<Rightarrow> (Abort 404 ''Not found'', db)
                    | Some rw \<Rightarrow> (Ok 200 (JRow rw), db))))"

definition list_query ::
  "'db executor \<Rightarrow> table \<Rightarrow> params \<Rightarrow> int \<Rightarrow> int \<Rightarrow> 'db \<Rightarrow> response \<times> 'db" where
  "list_query exec tbl args limit offset db =
     (case build_filters tbl args of
        Inl e \<Rightarrow> (Internal e, db)
      | Inr wh \<Rightarrow>
          (let ord = parse_order tbl args;
               st = Select wh ord limit (Some offset)
           in case fst (exec st db) of
                Inl e \<Rightarrow> (Internal e, db)
              | Inr rows \<Rightarrow> (Ok 200 (JList rows limit offset), db)))"

definition get_list :: "'db executor \<Rightarrow> config \<Rightarrow> table \<Rightarrow> params \<Rightarrow> 'db \<Rightarrow> response \<times> 'db" where
  "get_list exec cfg tbl args db =
     (let limit = cast_limit (args_get args ''limit'') (DEFAULT_LIMIT cfg) (MAX_LIMIT cfg) in
      case args_get args ''offset'' of
        None \<Rightarrow> list_query exec tbl args limit 0 db
      | Some s \<Rightarrow>
          (case py_int s of
             None \<Rightarrow> (Internal (ValueError s), db)
           | Some offset \<Rightarrow> list_query exec tbl args limit offset db))"

definition post :: "'db executor \<Rightarrow> config \<Rightarrow> table \<Rightarrow> request \<Rightarrow> 'db \<Rightarrow> response \<times> 'db" where
  "post exec cfg tbl req db =
     (if tbl_name tbl \<in> set (READ_ONLY cfg) then (Abort 405 (read_only_msg tbl), db)
      else
        (case payload_known_columns tbl (req_json req) of
           Inl e \<Rightarrow> (Internal e, db)
         | Inr payload \<Rightarrow>
             if payload = [] then (Abort 400 ''Empty payload or unknown fields'', db)
             else
               (case exec (Insert payload) db of
                  (Inl e, _) \<Rightarrow> (Internal e, db)
                | (Inr rows, db') \<Rightarrow>
                    (case first rows of
                       None \<Rightarrow> (Internal TypeError, db')
                     | Some rw \<Rightarrow> (Ok 201 (JRow rw), db')))))"

definition put :: "'db executor \<Rightarrow> config \<Rightarrow> table \<Rightarrow> request \<Rightarrow> 'db \<Rightarrow> response \<times> 'db" where
  "put exec cfg tbl req db =
     (if tbl_name tbl \<in> set (READ_ONLY cfg) then (Abort 405 (read_only_msg tbl), db)
      else
        (case require_pk_params (req_args req) (pk_columns tbl) of
           Inl resp \<Rightarrow> (resp, db)
         | Inr pkd \<Rightarrow>
             (case payload_known_columns tbl (req_json req) of
                Inl e \<Rightarrow> (Internal e, db)
              | Inr payload \<Rightarrow>
                  if payload = [] then (Abort 400 ''Empty payload or unknown fields'', db)
                  else
                    (case exec (Update (pk_where pkd) payload) db of
                       (Inl e, _) \<Rightarrow> (Internal e, db)
                     | (Inr rows, db') \<Rightarrow>
                         (let r = first rows in
                          if no_row r then (Abort 404 ''Not found'', db')
                          else (case r of None \<Rightarrow> (Abort 404 ''Not found'', db')
                                | Some rw \<Rightarrow> (Ok 200 (JRow rw), db')))))))"

text \<open>
  In \<open>DELETE\<close> the statement returns the primary-key columns. For a table without a
  primary-key column \<open>returning()\<close> names no column, the result has no rows to read,
  and \<open>.first()\<close> raises \<open>ResourceClosedError\<close> inside \<open>engine.begin()\<close>: whatever
  the statement deleted is rolled back.
\<close>

definition delete :: "'db executor \<Rightarrow> config \<Rightarrow> table \<Rightarrow> request \<Rightarrow> 'db \<Rightarrow> response \<times> 'db" where
  "delete exec cfg tbl req db =
     (if tbl_name tbl \<in> set (READ_ONLY cfg) then (Abort 405 (read_only_msg tbl), db)
      else
        (case require_pk_params (req_args req) (pk_columns tbl) of
           Inl resp \<Rightarrow> (resp, db)
         | Inr pkd \<Rightarrow>
             (case exec (Delete (pk_where pkd) (pk_columns tbl)) db of
                (Inl e, _) \<Rightarrow> (Internal e, db)
              | (Inr rows, db') \<Rightarrow>
                  if pk_columns tbl = [] then (Internal ResourceClosedError, db)
                  else if no_row (first rows) then (Abort 404 ''Not found'', db')
                  else (Ok 200 JDeleted, db'))))"

definition handler :: "'db executor \<Rightarrow> config \<Rightarrow> table \<Rightarrow> request \<Rightarrow> 'db \<Rightarrow> response \<times> 'db" where
  "handler exec cfg tbl req db =
     (let method = req_method req in
      if method = ''GET'' then
        (if list_all (args_has (req_args req)) (pk_columns tbl)
         then get_one exec tbl (req_args req) db
         else get_list exec cfg tbl (req_args req) db)
      else if method = ''POST'' then post exec cfg tbl req db
      else if method = ''PUT'' \<or> method = ''PATCH'' then put exec cfg tbl req db
      else if method = ''DELETE'' then delete exec cfg tbl req db
      else (Abort 405 ''Method not allowed'', db))"

section \<open>The database engine\<close>

text \<open>
  The engine is not part of the repository. The model keeps the rows of the handler's
  table, in the order in which the engine scans them, and gives each statement its SQL
  meaning. What depends on the engine and on the column types is a parameter: whether a
  row satisfies a comparison with a bound string (\<open>sat\<close>), how rows are sorted
  (\<open>sort_rows\<close>), the row that an \<open>INSERT\<close> stores, with its defaults, or the
  error it raises (\<open>store\<close>), and the same for the new value of a row under an
  \<open>UPDATE\<close> (\<open>change\<close>). A negative \<open>LIMIT\<close> or \<open>OFFSET\<close> is an error, as in
  PostgreSQL.
\<close>

record engine =
  sat :: "clause \<Rightarrow> row \<Rightarrow> bool"
  sort_rows :: "order \<Rightarrow> row list \<Rightarrow> row list"
  store :: "row \<Rightarrow> row list \<Rightarrow> string + row"
  change :: "row \<Rightarrow> row \<Rightarrow> string + row"

fun holds :: "engine \<Rightarrow> pred \<Rightarrow> row \<Rightarrow> bool" where
  "holds E (And cs) r = list_all (\<lambda>c. sat E c r) cs"

definition holds_opt :: "engine \<Rightarrow> pred option \<Rightarrow> row \<Rightarrow> bool" where
  "holds_opt E wh r = (case wh of None \<Rightarrow> True | Some p \<Rightarrow> holds E p r)"

definition project :: "string list \<Rightarrow> row \<Rightarrow> row" where
  "project cols r = filter (\<lambda>kv. fst kv \<in> set cols) r"

fun update_rows :: "engine \<Rightarrow> pred \<Rightarrow> row \<Rightarrow> row list \<Rightarrow> string + (row list \<times> row list)" where
  "update_rows E wh payload [] = Inr ([], [])"
| "update_rows E wh payload (r # rs) =
     (case update_rows E wh payload rs of
        Inl e \<Rightarrow> Inl e
      | Inr (out, rs') \<Rightarrow>
          if holds E wh r then
            (case change E payload r of
               Inl e \<Rightarrow> Inl e
             | Inr r' \<Rightarrow> Inr (r' # out, r' # rs'))
          else Inr (out, r # rs'))"

fun run_stmt :: "engine \<Rightarrow> row list executor" where
  "run_stmt E (Select wh ord limit offset) rows =
     (let found = filter (holds_opt E wh) rows;
          srt = (case ord of None \<Rightarrow> found | Some ob \<Rightarrow> sort_rows E ob found);
          off = (case offset of None \<Rightarrow> 0 | Some n \<Rightarrow> n)
      in if limit < 0 \<or> off < 0 then (Inl (DBError ''negative LIMIT or OFFSET''), rows)
         else (Inr (take (nat limit) (drop (nat off) srt)), rows))"
| "run_stmt E (Insert payload) rows =
     (case store E payload rows of
        Inl e \<Rightarrow> (Inl (DBError e), rows)
      | Inr r \<Rightarrow> (Inr [r], rows @ [r]))"
| "run_stmt E (Update wh payload) rows =
     (case update_rows E wh payload rows of
        Inl e \<Rightarrow> (Inl (DBError e), rows)
      | Inr (out, rows') \<Rightarrow> (Inr out, rows'))"
| "run_stmt E (Delete wh cols) rows =
     (Inr (map (project cols) (filter (holds E wh) rows)),
      filter (\<lambda>r. \<not> holds E wh r) rows)"

text \<open>An executor that only counts the statements it is given.\<close>

definition counting :: "nat executor" where
  "counting st n = (Inr [], Suc n)"

section \<open>Tables, a configuration and an engine for the examples\<close>

definition orders :: table where
  "orders = \<lparr>tbl_name = ''orders'', tbl_c = [''id'', ''name'', ''total''], tbl_pk = [''id'']\<rparr>"


definition marks :: table where
  "marks =
     \<lparr>tbl_name = ''marks'', tbl_c = [''id'', ''id_gte'', ''rev''], tbl_pk = [''id_gte'', ''rev'']\<rparr>"

definition events :: table where
  "events = \<lparr>tbl_name = ''events'', tbl_c = [''msg'', ''level''], tbl_pk = []\<rparr>"

definition memos :: table where
  "memos = \<lparr>tbl_name = ''memos'', tbl_c = [''body''], tbl_pk = []\<rparr>"

definition conf :: config where
  "conf = \<lparr>DEFAULT_LIMIT = 100, MAX_LIMIT = 1000, READ_ONLY = [''events'']\<rparr>"

text \<open>
  An engine over text columns that answers the equality and the \<open>NULL\<close> test, keeps
  the scan order, stores a payload as it is and overwrites the fields of a payload.
\<close>

definition eq_engine :: engine where
  "eq_engine =
     \<lparr>sat = (\<lambda>c r. case c of
                 Eq col v \<Rightarrow> map_of r col = Some (VStr v)
               | IsNull col \<Rightarrow> map_of r col = Some VNull
               | _ \<Rightarrow> False),
      sort_rows = (\<lambda>ob rs. rs),
      store = (\<lambda>payload rs. Inr payload),
      change = (\<lambda>payload r. Inr (map (\<lambda>kv. case map_of payload (fst kv) of
                                              None \<Rightarrow> kv | Some v \<Rightarrow> (fst kv, v)) r))\<rparr>"


definition one_order :: "row list" where
  "one_order = [[(''id'', VStr ''1''), (''name'', VStr ''bob''), (''total'', VStr ''30'')]]"

definition two_events :: "row list" where
  "two_events =
     [[(''msg'', VStr ''boot''), (''level'', VStr ''info'')],
      [(''msg'', VStr ''halt''), (''level'', VStr ''warn'')]]"

section \<open>Ordering resolution\<close>

lemma lower_desc: "lower ''desc'' = ''desc''"
  by code_simp

text \<open>
  What \<open>lower d = ''desc''\<close> says of \<open>d\<close>: it spells \<open>desc\<close>, each letter in either
  case.
\<close>

lemma lower_char_eq_iff:
  assumes k: "of_char t = (k::nat)" and u: "of_char u = k - 32" and lo: "97 \<le> k" and hi: "k \<le> 122"
  shows "lower_char ch = t \<longleftrightarrow> ch = t \<or> ch = u"
proof (cases "65 \<le> (of_char ch :: nat) \<and> (of_char ch :: nat) \<le> 90")
  case True
  then have l: "lower_char ch = char_of ((of_char ch :: nat) + 32)"
    by (simp add: lower_char_def)
  have "char_of ((of_char ch :: nat) + 32) = t \<longleftrightarrow> (of_char ch :: nat) + 32 = k"
  proof
    assume "char_of ((of_char ch :: nat) + 32) = t"
    then have "(of_char (char_of ((of_char ch :: nat) + 32)) :: nat) = k"
      using k by simp
    with True show "(of_char ch :: nat) + 32 = k" by simp
  next
    assume "(of_char ch :: nat) + 32 = k"
    then have "char_of ((of_char ch :: nat) + 32) = char_of (of_char t :: nat)"
      using k by simp
    then show "char_of ((of_char ch :: nat) + 32) = t" by simp
  qed
  also have "\<dots> \<longleftrightarrow> (of_char ch :: nat) = (of_char u :: nat)"
    using lo u by auto
  also have "\<dots> \<longleftrightarrow> ch = u"
    by simp
  finally have "lower_char ch = t \<longleftrightarrow> ch = u"
    using l by simp
  moreover from True k lo have "ch \<noteq> t" by auto
  ultimately show ?thesis by simp
next
  case False
  then have l: "lower_char ch = ch"
    by (auto simp: lower_char_def)
  have "ch \<noteq> u"
  proof
    assume "ch = u"
    with u have "(of_char ch :: nat) = k - 32" by simp
    with lo hi False show False by arith
  qed
  with l show ?thesis by auto
qed

lemma lower_char_d: "lower_char ch = CHR ''d'' \<longleftrightarrow> ch = CHR ''d'' \<or> ch = CHR ''D''"
  by (rule lower_char_eq_iff [of _ 100]) simp_all

lemma lower_char_e: "lower_char ch = CHR ''e'' \<longleftrightarrow> ch = CHR ''e'' \<or> ch = CHR ''E''"
  by (rule lower_char_eq_iff [of _ 101]) simp_all

lemma lower_char_s: "lower_char ch = CHR ''s'' \<longleftrightarrow> ch = CHR ''s'' \<or> ch = CHR ''S''"
  by (rule lower_char_eq_iff [of _ 115]) simp_all

lemma lower_char_c: "lower_char ch = CHR ''c'' \<longleftrightarrow> ch = CHR ''c'' \<or> ch = CHR ''C''"
  by (rule lower_char_eq_iff [of _ 99]) simp_all

lemma map_eq_four:
  "map f xs = [w, x, y, z] \<longleftrightarrow>
     (\<exists>a b c e. xs = [a, b, c, e] \<and> f a = w \<and> f b = x \<and> f c = y \<and> f e = z)"
  by (auto simp: map_eq_Cons_conv)

lemma lower_eq_desc_iff:
  "lower d = ''desc'' \<longleftrightarrow>
     (\<exists>a b c e. d = [a, b, c, e] \<and> (a = CHR ''d'' \<or> a = CHR ''D'') \<and> (b = CHR ''e'' \<or> b = CHR ''E'') \<and>
        (c = CHR ''s'' \<or> c = CHR ''S'') \<and> (e = CHR ''c'' \<or> e = CHR ''C''))"
  unfolding lower_def map_eq_four lower_char_d lower_char_e lower_char_s lower_char_c ..

text \<open>
  Claim C1, as the code has it. When \<open>order_by\<close> names a real column, \<open>parse_order\<close>
  sorts descending exactly when \<open>order_dir\<close> is absent or equals \<open>desc\<close> once
  lowered; every other value of \<open>order_dir\<close> gives an ascending sort on that column.
\<close>

theorem parse_order_direction:
  assumes "args_get args ''order_by'' = Some ob" and "ob \<noteq> []" and "ob \<in> set (tbl_c tbl)"
  shows "parse_order tbl args =
           (case args_get args ''order_dir'' of
              None \<Rightarrow> Some (Desc ob)
            | Some d \<Rightarrow> if lower d = ''desc'' then Some (Desc ob) else Some (Asc ob))"
  using assms by (simp add: parse_order_def lower_desc split: option.splits)

text \<open>
  The theorem at three requests on \<open>orders\<close>: \<open>order_dir=DESC\<close>, \<open>order_dir=asc\<close>
  and no \<open>order_dir\<close>.
\<close>

theorem parse_order_direction_witness:
  "parse_order orders [(''order_by'', ''total''), (''order_dir'', ''DESC'')] = Some (Desc ''total'') \<and>
   parse_order orders [(''order_by'', ''total''), (''order_dir'', ''asc'')] = Some (Asc ''total'') \<and>
   parse_order orders [(''order_by'', ''total'')] = Some (Desc ''total'')"
proof -
  have ob: "''total'' \<noteq> []" "''total'' \<in> set (tbl_c orders)"
    by (simp_all add: orders_def)
  have l: "lower ''DESC'' = ''desc''" "lower ''asc'' \<noteq> ''desc''"
    by code_simp+
  have "parse_order orders [(''order_by'', ''total''), (''order_dir'', ''DESC'')] = Some (Desc ''total'')"
    using parse_order_direction [of "[(''order_by'', ''total''), (''order_dir'', ''DESC'')]" "''total''" orders] ob l
    by (simp add: args_get_def)
  moreover have "parse_order orders [(''order_by'', ''total''), (''order_dir'', ''asc'')] = Some (Asc ''total'')"
    using parse_order_direction [of "[(''order_by'', ''total''), (''order_dir'', ''asc'')]" "''total''" orders] ob l
    by (simp add: args_get_def)
  moreover have "parse_order orders [(''order_by'', ''total'')] = Some (Desc ''total'')"
    using parse_order_direction [of "[(''order_by'', ''total'')]" "''total''" orders] ob
    by (simp add: args_get_def)
  ultimately show ?thesis by simp
qed

text \<open>
  Claim C1 as the specification words it fails: \<open>order_dir=foo\<close> is neither \<open>asc\<close>
  nor absent, and the sort is ascending, not descending.
\<close>

theorem parse_order_other_value_ascending:
  "parse_order orders [(''order_by'', ''total''), (''order_dir'', ''foo'')] = Some (Asc ''total'')"
  by code_simp

section \<open>Pagination resolution\<close>




text \<open>
  A control byte is no whitespace for \<open>int\<close>: a digit after the byte
  \<^verbatim>\<open>\x1f\<close> does not parse.
\<close>

lemma py_int_control_byte:
  "py_int [CHR 0x1F, CHR ''7''] = None" "py_int [CHR 0x1F, CHR ''0''] = None"
  by (simp_all add: py_int_def strip_def is_space_def is_digit_def)

text \<open>
  The two paths to the default, in the code as it is, with default 5000 and maximum
  1000: an absent limit gets the clamped default, an unparseable limit gets the default
  as it is.
\<close>

lemma cast_limit_except_branch:
  "cast_limit None 5000 1000 = 1000 \<and> cast_limit (Some ''abc'') 5000 1000 = 5000 \<and>
   cast_limit (Some [CHR 0x1F, CHR ''7'']) 5000 1000 = 5000"
proof -
  have "py_int ''abc'' = None" by code_simp
  then show ?thesis
    by (simp add: cast_limit_def py_int_control_byte)
qed

section \<open>The filter translator\<close>

lemma map_of_Some_list:
  "list_all (\<lambda>k. map_of kvs k \<noteq> None) ks \<Longrightarrow> \<exists>vals. map (map_of kvs) ks = map Some vals"
proof (induction ks)
  case Nil
  then show ?case by simp
next
  case (Cons k ks)
  then obtain vals where vs: "map (map_of kvs) ks = map Some vals" by auto
  from Cons.prems obtain v where "map_of kvs k = Some v" by auto
  with vs have "map (map_of kvs) (k # ks) = map Some (v # vals)" by simp
  then show ?case by blast
qed

lemma col_eq_map2:
  "map f ks = map Some vals \<Longrightarrow> map (\<lambda>c. col_eq c (f c)) ks = map2 Eq ks vals"
proof (induction ks arbitrary: vals)
  case Nil
  then show ?case by simp
next
  case (Cons k ks)
  then obtain v vs where "vals = v # vs" by (cases vals) auto
  with Cons show ?case by auto
qed

text \<open>
  Claim C4. When every primary-key column is a key of the parameters, each has a string
  value there, and \<open>build_filters\<close> returns the conjunction of the equalities of the
  primary-key columns with these values, in the order of the key, and nothing else.
\<close>

theorem build_filters_all_pk:
  assumes "list_all (args_has args) (pk_columns tbl)"
  shows "\<exists>vals. map (args_get args) (pk_columns tbl) = map Some vals \<and>
           build_filters tbl args = Inr (Some (And (map2 Eq (pk_columns tbl) vals)))"
proof -
  from assms have "list_all (\<lambda>k. map_of args k \<noteq> None) (pk_columns tbl)"
    by (simp add: args_has_def [abs_def])
  then obtain vals where vs: "map (map_of args) (pk_columns tbl) = map Some vals"
    using map_of_Some_list by blast
  then have "map (\<lambda>c. col_eq c (map_of args c)) (pk_columns tbl) = map2 Eq (pk_columns tbl) vals"
    by (rule col_eq_map2)
  with assms vs show ?thesis
    by (auto simp: build_filters_def args_get_def [abs_def])
qed

text \<open>
  The theorem on \<open>orders\<close> at \<open>name=bob&id=7&total_gte=3\<close>: the predicate is
  \<open>id = '7'\<close> alone.
\<close>

theorem build_filters_all_pk_witness:
  "build_filters orders [(''name'', ''bob''), (''id'', ''7''), (''total_gte'', ''3'')]
     = Inr (Some (And [Eq ''id'' ''7'']))"
proof -
  let ?args = "[(''name'', ''bob''), (''id'', ''7''), (''total_gte'', ''3'')]"
  have pk: "pk_columns orders = [''id'']"
    by (simp add: pk_columns_def orders_def)
  have "list_all (args_has ?args) (pk_columns orders)"
    by (simp add: pk args_has_def)
  from build_filters_all_pk [OF this] obtain vals
    where "map (args_get ?args) (pk_columns orders) = map Some vals"
      and b: "build_filters orders ?args = Inr (Some (And (map2 Eq (pk_columns orders) vals)))"
    by blast
  then have "vals = [''7'']"
    by (auto simp: pk args_get_def)
  with b show ?thesis by (simp add: pk)
qed

lemma key_conds_pk: "fst kv \<in> set (pk_columns tbl) \<Longrightarrow> key_conds tbl kv = Inr []"
  by (simp add: key_conds_def)

lemma items_filter_keys:
  "items (filter (\<lambda>p. P (fst p)) args) = filter (\<lambda>p. P (fst p)) (items args)"
proof (induction args rule: items.induct)
  case 1
  then show ?case by simp
next
  case (2 kv kvs)
  have comm: "filter (\<lambda>p. fst p \<noteq> fst kv) (filter (\<lambda>p. P (fst p)) kvs)
                = filter (\<lambda>p. P (fst p)) (filter (\<lambda>p. fst p \<noteq> fst kv) kvs)"
    by (simp add: conj_commute)
  show ?case
  proof (cases "P (fst kv)")
    case True
    with 2 comm show ?thesis by simp
  next
    case False
    then have "filter (\<lambda>p. P (fst p)) kvs
                 = filter (\<lambda>p. P (fst p)) (filter (\<lambda>p. fst p \<noteq> fst kv) kvs)"
      by (auto intro: filter_cong)
    with False 2 show ?thesis by simp
  qed
qed

lemma conds_of_drop_pk:
  "conds_of tbl (filter (\<lambda>p. fst p \<notin> set (pk_columns tbl)) kvs) = conds_of tbl kvs"
proof (induction kvs)
  case Nil
  then show ?case by simp
next
  case (Cons kv kvs)
  show ?case
  proof (cases "fst kv \<in> set (pk_columns tbl)")
    case True
    then have "conds_of tbl (kv # kvs) = conds_of tbl kvs"
      by (simp add: key_conds_pk split: sum.splits)
    with True Cons show ?thesis by simp
  next
    case False
    with Cons show ?thesis by (simp cong: sum.case_cong)
  qed
qed

lemma args_has_filtered:
  "k \<in> set ks \<Longrightarrow> \<not> args_has (filter (\<lambda>p. fst p \<notin> set ks) args) k"
  by (induction args) (auto simp: args_has_def)

text \<open>
  On the general path the keys that name primary-key columns can be dropped from the
  parameters: the predicate, or the exception, is the same.
\<close>

lemma build_filters_drop_pk_keys:
  assumes part: "\<not> list_all (args_has args) (pk_columns tbl)"
  shows "build_filters tbl args
           = build_filters tbl (filter (\<lambda>p. fst p \<notin> set (pk_columns tbl)) args)"
proof -
  let ?rest = "filter (\<lambda>p. fst p \<notin> set (pk_columns tbl)) args"
  from part obtain k where k: "k \<in> set (pk_columns tbl)"
    by (auto simp: list_all_iff)
  then have "\<not> args_has ?rest k" by (rule args_has_filtered)
  with k have rest: "\<not> list_all (args_has ?rest) (pk_columns tbl)"
    by (auto simp: list_all_iff)
  have "items ?rest = filter (\<lambda>p. fst p \<notin> set (pk_columns tbl)) (items args)"
    by (rule items_filter_keys)
  then have "conds_of tbl (items ?rest) = conds_of tbl (items args)"
    by (simp add: conds_of_drop_pk)
  with part rest show ?thesis
    by (simp add: build_filters_def)
qed

text \<open>
  Claim C5. In the loop of the general path a pair whose key is the name of a
  primary-key column adds no clause, whatever suffix the name ends with: the test on the
  key comes before every test of a suffix. Hence, on the general path, the predicate is
  the one of the parameters without the keys that name primary-key columns.
\<close>

theorem build_filters_skips_pk_keys:
  "(key \<in> set (pk_columns tbl) \<longrightarrow> key_conds tbl (key, v) = Inr []) \<and>
   (\<not> list_all (args_has args) (pk_columns tbl) \<longrightarrow>
      build_filters tbl args
        = build_filters tbl (filter (\<lambda>p. fst p \<notin> set (pk_columns tbl)) args))"
proof (intro conjI impI)
  assume "key \<in> set (pk_columns tbl)"
  then show "key_conds tbl (key, v) = Inr []" by (simp add: key_conds_pk)
next
  assume "\<not> list_all (args_has args) (pk_columns tbl)"
  then show "build_filters tbl args
               = build_filters tbl (filter (\<lambda>p. fst p \<notin> set (pk_columns tbl)) args)"
    by (rule build_filters_drop_pk_keys)
qed

text \<open>
  The theorem on \<open>marks\<close>, whose primary key has a column named \<open>id_gte\<close> beside the
  plain column \<open>id\<close>: the request \<open>id_gte=5\<close> gives no clause and no filter.
\<close>

theorem build_filters_skips_pk_keys_witness:
  "key_conds marks (''id_gte'', ''5'') = Inr [] \<and>
   build_filters marks [(''id_gte'', ''5'')] = Inr None"
proof -
  have pk: "pk_columns marks = [''id_gte'', ''rev'']"
    by (simp add: pk_columns_def marks_def)
  have part: "\<not> list_all (args_has [(''id_gte'', ''5'')]) (pk_columns marks)"
    by (simp add: pk args_has_def)
  have none: "build_filters marks [] = Inr None"
    by (simp add: build_filters_def pk args_has_def)
  note th = build_filters_skips_pk_keys [of "''id_gte''" marks "''5''" "[(''id_gte'', ''5'')]"]
  from th part none show ?thesis by (simp add: pk)
qed

text \<open>
  On a key that names no primary-key column the suffix is read; the suffix \<open>_like\<close>
  on a real column raises.
\<close>

lemma suffix_applies_to_plain_key:
  "build_filters orders [(''total_gte'', ''5'')] = Inr (Some (And [Gte ''total'' ''5''])) \<and>
   build_filters orders [(''name_like'', ''b%'')] = Inl TypeError"
  by code_simp

section \<open>Reading\<close>

lemma items_subset: "set (items args) \<subseteq> set args"
  by (induction args rule: items.induct) auto


lemma get_one_no_list: "fst (get_one exec tbl args db) \<noteq> Ok c (JList rs l off)"
  by (simp add: get_one_def Let_def split: option.splits sum.splits)




section \<open>Writing\<close>

text \<open>
  Claim C6, as the code has it. On a table that is not read-only, a \<open>POST\<close> whose body
  is missing, is a falsy JSON value, or is an object none of whose fields is a column,
  is aborted with status 400. This holds for every executor and every state of the
  database, and the state is returned as it was: no statement is run.
\<close>

theorem post_unknown_fields_bad_request:
  assumes "req_method req = ''POST''"
    and "tbl_name tbl \<notin> set (READ_ONLY cfg)"
    and "req_json req = NoJson \<or> req_json req = JOther False \<or>
         (\<exists>payload. req_json req = JObject payload \<and> set (map fst payload) \<inter> set (tbl_c tbl) = {})"
  shows "handler exec cfg tbl req db = (Abort 400 ''Empty payload or unknown fields'', db)"
proof -
  have "filter (\<lambda>kv. fst kv \<in> set (tbl_c tbl)) payload = []"
    if "set (map fst payload) \<inter> set (tbl_c tbl) = {}" for payload :: row
    using that by (auto simp: filter_empty_conv)
  with assms(3) have "payload_known_columns tbl (req_json req) = Inr []"
    by (auto simp: payload_known_columns_def)
  with assms(1,2) show ?thesis
    by (simp add: handler_def post_def)
qed

text \<open>
  The theorem on \<open>orders\<close> with the body \<open>{"colour": "red"}\<close>, on the executor that
  counts its statements: the count stays at zero.
\<close>

theorem post_unknown_fields_bad_request_witness:
  "handler counting conf orders
     \<lparr>req_method = ''POST'', req_args = [], req_json = JObject [(''colour'', VStr ''red'')]\<rparr> 0
   = (Abort 400 ''Empty payload or unknown fields'', 0)"
proof -
  let ?req = "\<lparr>req_method = ''POST'', req_args = [], req_json = JObject [(''colour'', VStr ''red'')]\<rparr>"
  have "req_method ?req = ''POST''" by simp
  moreover have "tbl_name orders \<notin> set (READ_ONLY conf)"
    by (simp add: orders_def conf_def)
  moreover have "req_json ?req = NoJson \<or> req_json ?req = JOther False \<or>
         (\<exists>payload. req_json ?req = JObject payload \<and> set (map fst payload) \<inter> set (tbl_c orders) = {})"
    by (simp add: orders_def)
  ultimately show ?thesis
    by (rule post_unknown_fields_bad_request)
qed

text \<open>
  Claim C6 as the specification words it, for every table, fails on a read-only table:
  the same request on \<open>events\<close> is aborted with status 405, not 400.
\<close>

theorem post_read_only_not_bad_request:
  "handler counting conf events
     \<lparr>req_method = ''POST'', req_args = [], req_json = JObject [(''colour'', VStr ''red'')]\<rparr> 0
   = (Abort 405 ''Table 'events' is read-only'', 0)"
  by code_simp

text \<open>
  Claim C7. On a read-only table every \<open>POST\<close>, \<open>PUT\<close>, \<open>PATCH\<close> and
  \<open>DELETE\<close> is aborted with status 405, whatever the parameters and the body are. This
  holds for every executor and every state of the database, and the state is returned as
  it was: no statement is run.
\<close>

theorem read_only_method_not_allowed:
  assumes "req_method req \<in> {''POST'', ''PUT'', ''PATCH'', ''DELETE''}"
    and "tbl_name tbl \<in> set (READ_ONLY cfg)"
  shows "handler exec cfg tbl req db = (Abort 405 (read_only_msg tbl), db) \<and>
         status (fst (handler exec cfg tbl req db)) = 405"
proof -
  from assms(1) consider "req_method req = ''POST''" | "req_method req = ''PUT''"
    | "req_method req = ''PATCH''" | "req_method req = ''DELETE''"
    by auto
  then have "handler exec cfg tbl req db = (Abort 405 (read_only_msg tbl), db)"
  proof cases
    case 1
    with assms(2) show ?thesis by (simp add: handler_def post_def)
  next
    case 2
    with assms(2) show ?thesis by (simp add: handler_def put_def)
  next
    case 3
    with assms(2) show ?thesis by (simp add: handler_def put_def)
  next
    case 4
    with assms(2) show ?thesis by (simp add: handler_def delete_def)
  qed
  then show ?thesis by simp
qed

text \<open>
  The theorem on the read-only \<open>events\<close>, for a \<open>DELETE\<close> with a parameter and a
  body, on the executor that counts its statements.
\<close>

theorem read_only_method_not_allowed_witness:
  "handler counting conf events
     \<lparr>req_method = ''DELETE'', req_args = [(''msg'', ''boot'')], req_json = JObject [(''level'', VStr ''x'')]\<rparr> 0
   = (Abort 405 ''Table 'events' is read-only'', 0)"
proof -
  let ?req = "\<lparr>req_method = ''DELETE'', req_args = [(''msg'', ''boot'')], req_json = JObject [(''level'', VStr ''x'')]\<rparr>"
  have "req_method ?req \<in> {''POST'', ''PUT'', ''PATCH'', ''DELETE''}" by simp
  moreover have "tbl_name events \<in> set (READ_ONLY conf)"
    by (simp add: events_def conf_def)
  ultimately have "handler counting conf events ?req 0 = (Abort 405 (read_only_msg events), 0)"
    using read_only_method_not_allowed [of ?req events conf counting 0] by blast
  moreover have "read_only_msg events = ''Table 'events' is read-only''"
    by code_simp
  ultimately show ?thesis by simp
qed

section \<open>The offset of a list\<close>

text \<open>
  Claim C10. On the list path, an \<open>offset\<close> that \<open>int\<close> does not parse raises
  \<open>ValueError\<close>; nothing catches it before \<open>handle_any_error\<close>, which answers with
  status 500, and no statement is run. The same string as \<open>limit\<close> gives the default
  limit instead.
\<close>

theorem bad_offset_internal_error:
  assumes "req_method req = ''GET''"
    and "\<not> list_all (args_has (req_args req)) (pk_columns tbl)"
    and "args_get (req_args req) ''offset'' = Some s"
    and "py_int s = None"
  shows "handler exec cfg tbl req db = (Internal (ValueError s), db) \<and>
         status (fst (handler exec cfg tbl req db)) = 500 \<and>
         cast_limit (Some s) (DEFAULT_LIMIT cfg) (MAX_LIMIT cfg) = DEFAULT_LIMIT cfg"
proof -
  from assms have "handler exec cfg tbl req db = (Internal (ValueError s), db)"
    by (simp add: handler_def get_list_def)
  moreover from assms(4) have "cast_limit (Some s) (DEFAULT_LIMIT cfg) (MAX_LIMIT cfg) = DEFAULT_LIMIT cfg"
    by (simp add: cast_limit_def)
  ultimately show ?thesis by simp
qed

text \<open>
  The theorem on \<open>orders\<close> at \<open>offset=abc\<close>, and at the offset
  \<^verbatim>\<open>\x1f\<close>\<open>0\<close>, a digit after a control byte.
\<close>

theorem bad_offset_internal_error_witness:
  "handler counting conf orders
     \<lparr>req_method = ''GET'', req_args = [(''offset'', ''abc'')], req_json = NoJson\<rparr> 0
   = (Internal (ValueError ''abc''), 0) \<and>
   handler counting conf orders
     \<lparr>req_method = ''GET'', req_args = [(''offset'', [CHR 0x1F, CHR ''0''])], req_json = NoJson\<rparr> 0
   = (Internal (ValueError [CHR 0x1F, CHR ''0'']), 0)"
proof -
  let ?abc = "\<lparr>req_method = ''GET'', req_args = [(''offset'', ''abc'')], req_json = NoJson\<rparr>"
  let ?ctl = "\<lparr>req_method = ''GET'', req_args = [(''offset'', [CHR 0x1F, CHR ''0''])],
               req_json = NoJson\<rparr>"
  have get: "req_method ?abc = ''GET''" "req_method ?ctl = ''GET''" by simp_all
  have part: "\<not> list_all (args_has (req_args ?abc)) (pk_columns orders)"
    "\<not> list_all (args_has (req_args ?ctl)) (pk_columns orders)"
    by (simp_all add: pk_columns_def orders_def args_has_def)
  have off: "args_get (req_args ?abc) ''offset'' = Some ''abc''"
    "args_get (req_args ?ctl) ''offset'' = Some [CHR 0x1F, CHR ''0'']"
    by (simp_all add: args_get_def)
  have bad: "py_int ''abc'' = None" by code_simp
  from bad_offset_internal_error [OF get(1) part(1) off(1) bad, of counting conf 0]
    bad_offset_internal_error [OF get(2) part(2) off(2) py_int_control_byte(2), of counting conf 0]
  show ?thesis by blast
qed

text \<open>
  For comparison, \<open>limit=abc\<close> is answered with status 200 and the default limit.
\<close>

lemma bad_limit_falls_back:
  "handler counting conf orders
     \<lparr>req_method = ''GET'', req_args = [(''limit'', ''abc'')], req_json = NoJson\<rparr> 0
   = (Ok 200 (JList [] 100 0), 0)"
  by code_simp

section \<open>Deleting an absent key\<close>

lemma require_pk_params_all:
  "map (args_get args) pk = map Some vals \<Longrightarrow> require_pk_params args pk = Inr (zip pk vals)"
proof (induction pk arbitrary: vals)
  case Nil
  then show ?case by simp
next
  case (Cons c pk)
  then obtain v vs where "vals = v # vs" by (cases vals) auto
  with Cons show ?case by auto
qed

lemma pk_where_zip: "pk_where (zip pk vals) = And (map2 Eq pk vals)"
  by (simp add: pk_where_def case_prod_beta)

text \<open>
  Claim C8. On a table that is not read-only and has a primary key, a \<open>DELETE\<close> that
  gives every primary-key column a value, where no row of the table satisfies the
  equalities on the key, is aborted with status 404 and leaves the rows as they were; the
  same request again, on the state the first one left, has the same answer and the same
  rows.
\<close>

theorem delete_absent_key_not_found:
  assumes del: "req_method req = ''DELETE''"
    and writable: "tbl_name tbl \<notin> set (READ_ONLY cfg)"
    and key: "pk_columns tbl \<noteq> []"
    and full: "map (args_get (req_args req)) (pk_columns tbl) = map Some vals"
    and absent: "list_all (\<lambda>r. \<not> holds E (And (map2 Eq (pk_columns tbl) vals)) r) rows"
  shows "handler (run_stmt E) cfg tbl req rows = (Abort 404 ''Not found'', rows) \<and>
         handler (run_stmt E) cfg tbl req (snd (handler (run_stmt E) cfg tbl req rows))
           = (Abort 404 ''Not found'', rows)"
proof -
  let ?wh = "And (map2 Eq (pk_columns tbl) vals)"
  from full have pkd: "require_pk_params (req_args req) (pk_columns tbl)
                         = Inr (zip (pk_columns tbl) vals)"
    by (rule require_pk_params_all)
  from absent have none: "filter (holds E ?wh) rows = []"
    by (simp add: filter_empty_conv list_all_iff)
  from absent have kept: "filter (\<lambda>r. \<not> holds E ?wh r) rows = rows"
    by (simp add: filter_id_conv list_all_iff)
  from none kept have run: "run_stmt E (Delete ?wh (pk_columns tbl)) rows = (Inr [], rows)"
    by simp
  have once: "handler (run_stmt E) cfg tbl req rows = (Abort 404 ''Not found'', rows)"
    using del writable key pkd run
    by (simp add: handler_def delete_def pk_where_zip first_def no_row_def)
  then show ?thesis by simp
qed

text \<open>
  The theorem on \<open>orders\<close>, which holds the order 1, at \<open>id=9\<close>.
\<close>

theorem delete_absent_key_not_found_witness:
  "handler (run_stmt eq_engine) conf orders
     \<lparr>req_method = ''DELETE'', req_args = [(''id'', ''9'')], req_json = NoJson\<rparr> one_order
   = (Abort 404 ''Not found'', one_order)"
proof -
  let ?req = "\<lparr>req_method = ''DELETE'', req_args = [(''id'', ''9'')], req_json = NoJson\<rparr>"
  have pk: "pk_columns orders = [''id'']"
    by (simp add: pk_columns_def orders_def)
  have "req_method ?req = ''DELETE''" by simp
  moreover have "tbl_name orders \<notin> set (READ_ONLY conf)"
    by (simp add: orders_def conf_def)
  moreover have "pk_columns orders \<noteq> []"
    by (simp add: pk)
  moreover have "map (args_get (req_args ?req)) (pk_columns orders) = map Some [''9'']"
    by (simp add: pk args_get_def)
  moreover have "list_all (\<lambda>r. \<not> holds eq_engine (And (map2 Eq (pk_columns orders) [''9''])) r) one_order"
    by (simp add: pk one_order_def eq_engine_def)
  ultimately show ?thesis
    using delete_absent_key_not_found [of ?req orders conf "[''9'']" eq_engine one_order]
    by blast
qed

text \<open>
  For comparison, the \<open>DELETE\<close> of the order 1 is confirmed and removes the row.
\<close>

lemma delete_present_key:
  "handler (run_stmt eq_engine) conf orders
     \<lparr>req_method = ''DELETE'', req_args = [(''id'', ''1'')], req_json = NoJson\<rparr> one_order
   = (Ok 200 JDeleted, [])"
  by code_simp

text \<open>
  A table without a primary key has no key to give: there every \<open>DELETE\<close>, on a table
  that is not read-only, ends in the exception of \<open>.first()\<close> or in the one of the
  statement, and the rows are as they were.
\<close>

lemma delete_without_key:
  assumes "req_method req = ''DELETE''"
    and "tbl_name tbl \<notin> set (READ_ONLY cfg)"
    and "pk_columns tbl = []"
  shows "\<exists>e. handler exec cfg tbl req db = (Internal e, db)"
  using assms
  by (simp add: handler_def delete_def split: prod.splits sum.splits)

lemma delete_without_key_memos:
  "handler (run_stmt eq_engine) conf memos
     \<lparr>req_method = ''DELETE'', req_args = [], req_json = NoJson\<rparr> [[(''body'', VStr ''hi'')]]
   = (Internal ResourceClosedError, [[(''body'', VStr ''hi'')]])"
  by code_simp

section \<open>Tables without a primary key\<close>

text \<open>
  Claim C9. For a table whose primary key has no column, every \<open>GET\<close> takes the
  single-row path, whatever its parameters are: the test that all primary-key parameters
  are present holds of the empty list, and the predicate is the empty conjunction. The
  answer is the first row of the table (rows have at least one field), or the abort 404
  when the table is empty, and on no executor is it the envelope of a list.
\<close>

theorem no_pk_get_single_row:
  assumes get: "req_method req = ''GET''"
    and nopk: "pk_columns tbl = []"
    and cols: "[] \<notin> set rows"
  shows "handler (run_stmt E) cfg tbl req rows
           = (case rows of [] \<Rightarrow> Abort 404 ''Not found'' | r # _ \<Rightarrow> Ok 200 (JRow r), rows) \<and>
         handler exec cfg tbl req db = get_one exec tbl (req_args req) db \<and>
         (\<forall>c rs l off. fst (handler exec cfg tbl req db) \<noteq> Ok c (JList rs l off))"
proof -
  have path: "handler ex cfg tbl req st = get_one ex tbl (req_args req) st" for ex :: "'c executor" and st
    using get nopk by (simp add: handler_def)
  have "run_stmt E (Select (Some (And [])) None 1 None) rows = (Inr (take 1 rows), rows)"
    by (simp add: holds_opt_def)
  then have "get_one (run_stmt E) tbl (req_args req) rows
               = (case rows of [] \<Rightarrow> Abort 404 ''Not found'' | r # _ \<Rightarrow> Ok 200 (JRow r), rows)"
    using nopk cols
    by (cases rows) (auto simp: get_one_def first_def no_row_def)
  with path [of "run_stmt E" rows] path [of exec db] show ?thesis
    by (simp add: get_one_no_list)
qed

text \<open>
  The theorem on \<open>events\<close>, which has no primary key: \<open>level=warn&limit=5\<close> is
  answered with the first row, of level \<open>info\<close>, and the empty table with 404.
\<close>

theorem no_pk_get_single_row_witness:
  "handler (run_stmt eq_engine) conf events
     \<lparr>req_method = ''GET'', req_args = [(''level'', ''warn''), (''limit'', ''5'')], req_json = NoJson\<rparr>
     two_events
   = (Ok 200 (JRow [(''msg'', VStr ''boot''), (''level'', VStr ''info'')]), two_events) \<and>
   handler (run_stmt eq_engine) conf events
     \<lparr>req_method = ''GET'', req_args = [], req_json = NoJson\<rparr> []
   = (Abort 404 ''Not found'', [])"
proof -
  let ?req = "\<lparr>req_method = ''GET'', req_args = [(''level'', ''warn''), (''limit'', ''5'')], req_json = NoJson\<rparr>"
  let ?bare = "\<lparr>req_method = ''GET'', req_args = [], req_json = NoJson\<rparr>"
  have nopk: "pk_columns events = []"
    by (simp add: pk_columns_def events_def)
  have cols: "[] \<notin> set two_events" "[] \<notin> set ([] :: row list)"
    by (simp_all add: two_events_def)
  have "req_method ?req = ''GET''" "req_method ?bare = ''GET''" by simp_all
  with nopk cols show ?thesis
    using no_pk_get_single_row [of ?req events two_events eq_engine conf counting 0]
      no_pk_get_single_row [of ?bare events "[]" eq_engine conf counting 0]
    by (simp add: two_events_def)
qed

end
